theory Spec2Isabelle
  imports Complex_Main
begin

section \<open>Python floats\<close>

text \<open>
  The node of \<^verbatim>\<open>scripts/infrared_avoider.py\<close> computes with Python floats, which are
  IEEE 754 doubles: the three distances start at \<^verbatim>\<open>float('inf')\<close>, a \<^verbatim>\<open>Range\<close> message
  may carry an infinity or a NaN, and the threshold comes from the parameter server. A
  float is modelled as a finite real (the value of the double), one of the two
  infinities, or NaN. Every ordered comparison with a NaN is false, and a product with a
  NaN is a NaN. Comparison, negation and absolute value of doubles are exact; a product
  is rounded to the nearest double, ties to even, and a literal such as \<^verbatim>\<open>1.2\<close> denotes
  the double nearest to it. The sign of a zero is not modelled: Python's \<^verbatim>\<open>-0.0 == 0.0\<close>
  is true.
\<close>

datatype pyfloat = Fin real | PInf | NInf | NaN

text \<open>\<^verbatim>\<open>a < b\<close>\<close>

fun py_lt :: "pyfloat \<Rightarrow> pyfloat \<Rightarrow> bool" where
  "py_lt NaN b = False"
| "py_lt a NaN = False"
| "py_lt (Fin a) (Fin b) = (a < b)"
| "py_lt (Fin a) PInf = True"
| "py_lt (Fin a) NInf = False"
| "py_lt PInf b = False"
| "py_lt NInf NInf = False"
| "py_lt NInf b = True"

text \<open>\<^verbatim>\<open>a > b\<close>\<close>

definition py_gt :: "pyfloat \<Rightarrow> pyfloat \<Rightarrow> bool" where
  "py_gt a b = py_lt b a"

text \<open>\<^verbatim>\<open>a <= b\<close> and \<^verbatim>\<open>a >= b\<close>\<close>

fun py_le :: "pyfloat \<Rightarrow> pyfloat \<Rightarrow> bool" where
  "py_le NaN b = False"
| "py_le a NaN = False"
| "py_le a b = (\<not> py_lt b a)"

definition py_ge :: "pyfloat \<Rightarrow> pyfloat \<Rightarrow> bool" where
  "py_ge a b = py_le b a"

text \<open>Unary minus, \<^verbatim>\<open>-a\<close>\<close>

fun py_neg :: "pyfloat \<Rightarrow> pyfloat" where
  "py_neg (Fin a) = Fin (- a)"
| "py_neg PInf = NInf"
| "py_neg NInf = PInf"
| "py_neg NaN = NaN"

text \<open>\<^verbatim>\<open>abs(a)\<close>\<close>

fun py_abs :: "pyfloat \<Rightarrow> pyfloat" where
  "py_abs (Fin a) = Fin \<bar>a\<bar>"
| "py_abs PInf = PInf"
| "py_abs NInf = PInf"
| "py_abs NaN = NaN"

text \<open>
  Rounding to a double. \<open>pow2 e\<close> is two to the power \<open>e\<close>. \<open>round_even\<close> rounds to
  the nearest integer, a tie to the even one. \<open>exponent x\<close>, for \<open>x \<ge> 0\<close>, is the binary
  exponent of \<open>x\<close>, found by bisection and kept at \<open>-1022\<close> and above: the greatest \<open>e\<close>
  from \<open>-1022\<close> to \<open>1025\<close> with \<open>pow2 e \<le> x\<close>, and \<open>-1022\<close> when there is none (the
  subnormal range). A double has 53 significant bits, so the doubles around \<open>x\<close> are the
  multiples of \<open>pow2 (exponent \<bar>x\<bar> - 52)\<close>; \<open>round_double x\<close> is the nearest of them,
  or an infinity when that is \<open>pow2 1024\<close> or more in absolute value.
\<close>

definition pow2 :: "int \<Rightarrow> real" where
  "pow2 e = (if 0 \<le> e then 2 ^ nat e else 1 / 2 ^ nat (- e))"

definition round_even :: "real \<Rightarrow> int" where
  "round_even x =
     (let n = \<lfloor>x\<rfloor>; f = x - of_int n
      in if f < 1 / 2 then n
         else if 1 / 2 < f then n + 1
         else if even n then n else n + 1)"

definition bisect :: "real \<Rightarrow> int \<Rightarrow> int \<Rightarrow> int" where
  "bisect x d e = (if pow2 (e + d) \<le> x then e + d else e)"

definition exponent :: "real \<Rightarrow> int" where
  "exponent x =
     fold (bisect x) [1024, 512, 256, 128, 64, 32, 16, 8, 4, 2, 1] (- 1022)"

definition round_double :: "real \<Rightarrow> pyfloat" where
  "round_double x =
     (let ulp = pow2 (exponent \<bar>x\<bar> - 52);
          r = of_int (round_even (x / ulp)) * ulp
      in if pow2 1024 \<le> \<bar>r\<bar> then (if 0 < x then PInf else NInf) else Fin r)"

text \<open>A float literal of the source, given by its decimal value.\<close>

definition py_lit :: "real \<Rightarrow> pyfloat" where
  "py_lit x = round_double x"

text \<open>The product of an infinity of the given sign (\<open>True\<close> is \<open>+\<close>) with a finite number.\<close>

definition inf_times :: "bool \<Rightarrow> real \<Rightarrow> pyfloat" where
  "inf_times pos a =
     (if a = 0 then NaN else if (0 < a) = pos then PInf else NInf)"

text \<open>\<^verbatim>\<open>a * b\<close>\<close>

fun py_mul :: "pyfloat \<Rightarrow> pyfloat \<Rightarrow> pyfloat" where
  "py_mul NaN b = NaN"
| "py_mul a NaN = NaN"
| "py_mul (Fin a) (Fin b) = round_double (a * b)"
| "py_mul (Fin a) PInf = inf_times True a"
| "py_mul (Fin a) NInf = inf_times False a"
| "py_mul PInf (Fin b) = inf_times True b"
| "py_mul NInf (Fin b) = inf_times False b"
| "py_mul PInf PInf = PInf"
| "py_mul PInf NInf = NInf"
| "py_mul NInf PInf = NInf"
| "py_mul NInf NInf = PInf"

section \<open>Messages\<close>

text \<open>
  \<^verbatim>\<open>geometry_msgs/Twist\<close>: two vectors of three floats, \<^verbatim>\<open>linear\<close> and \<^verbatim>\<open>angular\<close>.
  The constructor \<^verbatim>\<open>Twist()\<close> sets all six to zero.
\<close>

record Twist =
  linear_x :: pyfloat
  linear_y :: pyfloat
  linear_z :: pyfloat
  angular_x :: pyfloat
  angular_y :: pyfloat
  angular_z :: pyfloat

definition Twist_init :: Twist where
  "Twist_init =
     \<lparr>linear_x = Fin 0, linear_y = Fin 0, linear_z = Fin 0,
      angular_x = Fin 0, angular_y = Fin 0, angular_z = Fin 0\<rparr>"

text \<open>
  \<^verbatim>\<open>sensor_msgs/Range\<close> without its header. The callbacks read the field \<^verbatim>\<open>range\<close>
  only; it is called \<open>range_m\<close> here (metres), \<open>range\<close> being taken in HOL.
\<close>

record Range =
  radiation_type :: nat
  field_of_view :: pyfloat
  min_range :: pyfloat
  max_range :: pyfloat
  range_m :: pyfloat

text \<open>
  The lines the node writes to the ROS log, by kind: the text of a message (and the
  distance formatted into the warning of line 54) is not modelled.
\<close>

datatype log_msg =
    NodeStarted
  | FrontObstacle
  | TurningLeft
  | TurningRight
  | LeftObstacle
  | RightObstacle
  | NodeStopped

datatype log_entry = LogInfo log_msg | LogWarn log_msg

section \<open>The node\<close>

text \<open>
  The attributes of \<^verbatim>\<open>InfraredObstacleAvoider\<close>. The publisher \<^verbatim>\<open>cmd_vel_pub\<close> is
  modelled by the list of the messages handed to its \<^verbatim>\<open>publish\<close>, oldest first, and the
  ROS log by \<open>rosout\<close>; \<open>rate\<close> is the frequency given to \<^verbatim>\<open>rospy.Rate\<close>.
\<close>

record InfraredObstacleAvoider =
  cmd_vel_pub :: "Twist list"
  obstacle_threshold :: pyfloat
  left_dist :: pyfloat
  front_dist :: pyfloat
  right_dist :: pyfloat
  linear_speed :: pyfloat
  angular_speed :: pyfloat
  rate :: nat
  rosout :: "log_entry list"

datatype exn = ROSInterruptException | OtherException

definition publish :: "Twist \<Rightarrow> InfraredObstacleAvoider \<Rightarrow> InfraredObstacleAvoider" where
  "publish t s = s\<lparr>cmd_vel_pub := cmd_vel_pub s @ [t]\<rparr>"

definition loginfo :: "log_msg \<Rightarrow> InfraredObstacleAvoider \<Rightarrow> InfraredObstacleAvoider" where
  "loginfo m s = s\<lparr>rosout := rosout s @ [LogInfo m]\<rparr>"

definition logwarn :: "log_msg \<Rightarrow> InfraredObstacleAvoider \<Rightarrow> InfraredObstacleAvoider" where
  "logwarn m s = s\<lparr>rosout := rosout s @ [LogWarn m]\<rparr>"

text \<open>
  \<^verbatim>\<open>__init__\<close> (lines 7 to 34). Its argument is what the parameter server holds for
  \<^verbatim>\<open>~obstacle_threshold\<close>: \<open>None\<close> when the parameter is not set, and then
  \<^verbatim>\<open>rospy.get_param\<close> returns the default 0.3. The constructor has no \<^verbatim>\<open>raise\<close> and
  checks none of the values; the result is a sum so that a failure could be expressed.
\<close>

definition init :: "pyfloat option \<Rightarrow> exn + InfraredObstacleAvoider" where
  "init param =
     Inr \<lparr>cmd_vel_pub = [],
          obstacle_threshold = (case param of None \<Rightarrow> py_lit 0.3 | Some v \<Rightarrow> v),
          left_dist = PInf,
          front_dist = PInf,
          right_dist = PInf,
          linear_speed = py_lit 0.2,
          angular_speed = Fin 0.5,
          rate = 10,
          rosout = [LogInfo NodeStarted]\<rparr>"

text \<open>The three subscriber callbacks (lines 37 to 46).\<close>

definition left_cb :: "Range \<Rightarrow> InfraredObstacleAvoider \<Rightarrow> InfraredObstacleAvoider" where
  "left_cb msg s = s\<lparr>left_dist := range_m msg\<rparr>"

definition front_cb :: "Range \<Rightarrow> InfraredObstacleAvoider \<Rightarrow> InfraredObstacleAvoider" where
  "front_cb msg s = s\<lparr>front_dist := range_m msg\<rparr>"

definition right_cb :: "Range \<Rightarrow> InfraredObstacleAvoider \<Rightarrow> InfraredObstacleAvoider" where
  "right_cb msg s = s\<lparr>right_dist := range_m msg\<rparr>"

text \<open>
  \<^verbatim>\<open>avoid_obstacle\<close> (lines 49 to 78): one decision, published on \<^verbatim>\<open>/cmd_vel\<close>.
  \<^verbatim>\<open>-self.angular_speed * 0.5\<close> is \<^verbatim>\<open>(-self.angular_speed) * 0.5\<close> in Python. The
  literals \<^verbatim>\<open>0.0\<close> and \<^verbatim>\<open>0.5\<close> are doubles as they stand; \<^verbatim>\<open>1.2\<close> is not.
\<close>

definition avoid_obstacle :: "InfraredObstacleAvoider \<Rightarrow> InfraredObstacleAvoider" where
  "avoid_obstacle s =
     (let twist = Twist_init in
      if py_lt (front_dist s) (obstacle_threshold s) then
        (let s1 = logwarn FrontObstacle s;
             twist1 = twist\<lparr>linear_x := Fin 0\<rparr>
         in if py_gt (left_dist s1) (right_dist s1) then
              publish (twist1\<lparr>angular_z := angular_speed s1\<rparr>) (loginfo TurningLeft s1)
            else
              publish (twist1\<lparr>angular_z := py_neg (angular_speed s1)\<rparr>)
                (loginfo TurningRight s1))
      else
        (let twist1 = twist\<lparr>linear_x := linear_speed s, angular_z := Fin 0\<rparr>
         in if py_lt (left_dist s) (py_mul (obstacle_threshold s) (py_lit 1.2)) then
              publish (twist1\<lparr>angular_z := py_mul (py_neg (angular_speed s)) (Fin 0.5)\<rparr>)
                (loginfo LeftObstacle s)
            else if py_lt (right_dist s) (py_mul (obstacle_threshold s) (py_lit 1.2)) then
              publish (twist1\<lparr>angular_z := py_mul (angular_speed s) (Fin 0.5)\<rparr>)
                (loginfo RightObstacle s)
            else publish twist1 s))"

text \<open>
  The command of a tick, \<^verbatim>\<open>compute_command\<close> in the specification: the message that
  one call of \<open>avoid_obstacle\<close> publishes; and the lines that call logs.
\<close>

definition compute_command :: "InfraredObstacleAvoider \<Rightarrow> Twist" where
  "compute_command s = last (cmd_vel_pub (avoid_obstacle s))"

definition tick_log :: "InfraredObstacleAvoider \<Rightarrow> log_entry list" where
  "tick_log s = drop (length (rosout s)) (rosout (avoid_obstacle s))"

text \<open>
  The side zone is the threshold times the literal 1.2 of lines 70 and 74: the float
  product \<open>py_mul (obstacle_threshold s) side_margin_factor\<close>, rounded as the code
  rounds it.
\<close>

definition side_margin_factor :: pyfloat where
  "side_margin_factor = py_lit 1.2"

text \<open>What a decision reads: the three stored readings, and the parameters.\<close>

definition readings :: "InfraredObstacleAvoider \<Rightarrow> pyfloat \<times> pyfloat \<times> pyfloat" where
  "readings s = (left_dist s, front_dist s, right_dist s)"

definition parameters :: "InfraredObstacleAvoider \<Rightarrow> pyfloat \<times> pyfloat \<times> pyfloat \<times> nat" where
  "parameters s = (obstacle_threshold s, linear_speed s, angular_speed s, rate s)"

section \<open>The environment and the loop\<close>

text \<open>
  A message arriving on one of the three topics \<^verbatim>\<open>/infrared/left\<close>,
  \<^verbatim>\<open>/infrared/front\<close>, \<^verbatim>\<open>/infrared/right\<close> runs the callback subscribed to it.
  Callbacks and ticks are interleaved as whole calls.
\<close>

datatype callback = ToLeft Range | ToFront Range | ToRight Range

fun deliver :: "callback \<Rightarrow> InfraredObstacleAvoider \<Rightarrow> InfraredObstacleAvoider" where
  "deliver (ToLeft msg) s = left_cb msg s"
| "deliver (ToFront msg) s = front_cb msg s"
| "deliver (ToRight msg) s = right_cb msg s"

text \<open>
  A history of calls on the node, for the states it can be in: callbacks, and decisions.
\<close>

datatype call = Deliver callback | Decide

fun exec :: "call list \<Rightarrow> InfraredObstacleAvoider \<Rightarrow> InfraredObstacleAvoider" where
  "exec [] s = s"
| "exec (Deliver c # cs) s = exec cs (deliver c s)"
| "exec (Decide # cs) s = exec cs (avoid_obstacle s)"

text \<open>
  What \<^verbatim>\<open>self.rate.sleep()\<close> does: it returns, or it raises. One step of the
  environment is the answer of \<^verbatim>\<open>rospy.is_shutdown()\<close> at the head of the loop: either
  it is true, or it is false and the step carries the messages that arrive while the
  iteration runs and the outcome of its sleep. A script is the finite list of steps that
  the environment has fixed so far.
\<close>

datatype sleep_result = Slept | Raised exn

datatype env_step = IsShutdown | Tick "callback list" sleep_result

text \<open>
  The \<^verbatim>\<open>while\<close> loop of \<^verbatim>\<open>run\<close> (lines 83 to 85). \<open>None\<close>: the script ends and the loop
  is still running. \<open>Some (None, s)\<close>: the loop has ended by its condition;
  \<open>Some (Some e, s)\<close>: the exception \<open>e\<close> has left it.
\<close>

fun run_loop ::
  "env_step list \<Rightarrow> InfraredObstacleAvoider \<Rightarrow> (exn option \<times> InfraredObstacleAvoider) option"
where
  "run_loop [] s = None"
| "run_loop (IsShutdown # rest) s = Some (None, s)"
| "run_loop (Tick msgs r # rest) s =
     (let s1 = fold deliver msgs (avoid_obstacle s)
      in case r of
           Slept \<Rightarrow> run_loop rest s1
         | Raised e \<Rightarrow> Some (Some e, s1))"

text \<open>
  \<^verbatim>\<open>run\<close> (lines 81 to 91): the loop, the handler of \<^verbatim>\<open>ROSInterruptException\<close>,
  which logs and swallows it, and the \<^verbatim>\<open>finally\<close> block, which publishes a fresh
  \<^verbatim>\<open>Twist()\<close>. Another exception goes on to the caller after the \<^verbatim>\<open>finally\<close> block.
\<close>

definition run ::
  "env_step list \<Rightarrow> InfraredObstacleAvoider \<Rightarrow> (exn option \<times> InfraredObstacleAvoider) option"
where
  "run script s =
     (case run_loop script s of
        None \<Rightarrow> None
      | Some (exc, s1) \<Rightarrow>
          (let (exc2, s2) =
                 (case exc of
                    Some ROSInterruptException \<Rightarrow> (None, loginfo NodeStopped s1)
                  | _ \<Rightarrow> (exc, s1));
               twist = Twist_init
           in Some (exc2, publish twist s2)))"

text \<open>
  The main block (lines 93 to 98): construct, run, and swallow a
  \<^verbatim>\<open>ROSInterruptException\<close>. \<open>early\<close> are the messages that arrive between the
  subscriptions of the constructor and the first tick. The result is the exception that
  ends the process, if any, and everything published on \<^verbatim>\<open>/cmd_vel\<close>.
\<close>

definition main ::
  "pyfloat option \<Rightarrow> callback list \<Rightarrow> env_step list \<Rightarrow> (exn option \<times> Twist list) option"
where
  "main param early script =
     (case init param of
        Inl e \<Rightarrow> Some (if e = ROSInterruptException then None else Some e, [])
      | Inr avoider \<Rightarrow>
          (case run script (fold deliver early avoider) of
             None \<Rightarrow> None
           | Some (exc, s) \<Rightarrow>
               Some (if exc = Some ROSInterruptException then None else exc,
                     cmd_vel_pub s)))"

text \<open>
  Whether a step ends the loop, and how many decisions a script lets the loop make before
  it ends.
\<close>

fun is_exit :: "env_step \<Rightarrow> bool" where
  "is_exit IsShutdown = True"
| "is_exit (Tick msgs Slept) = False"
| "is_exit (Tick msgs (Raised e)) = True"

fun ticks_run :: "env_step list \<Rightarrow> nat" where
  "ticks_run [] = 0"
| "ticks_run (IsShutdown # rest) = 0"
| "ticks_run (Tick msgs Slept # rest) = Suc (ticks_run rest)"
| "ticks_run (Tick msgs (Raised e) # rest) = 1"

text \<open>Whether a parameter is a positive finite number.\<close>

fun positive_finite :: "pyfloat \<Rightarrow> bool" where
  "positive_finite (Fin a) = (0 < a)"
| "positive_finite PInf = False"
| "positive_finite NInf = False"
| "positive_finite NaN = False"

section \<open>Concrete nodes and messages\<close>

text \<open>
  A node with the parameters that the constructor sets when \<^verbatim>\<open>~obstacle_threshold\<close> is
  left at its default, holding the given left, front and right readings; and a message
  of an infrared sensor with a given range.
\<close>

definition scene :: "pyfloat \<Rightarrow> pyfloat \<Rightarrow> pyfloat \<Rightarrow> InfraredObstacleAvoider" where
  "scene l f r =
     \<lparr>cmd_vel_pub = [], obstacle_threshold = py_lit 0.3, left_dist = l, front_dist = f,
      right_dist = r, linear_speed = py_lit 0.2, angular_speed = Fin 0.5, rate = 10,
      rosout = [LogInfo NodeStarted]\<rparr>"

definition infrared :: "pyfloat \<Rightarrow> Range" where
  "infrared d =
     \<lparr>radiation_type = 1, field_of_view = Fin 0.125, min_range = Fin 0.03125,
      max_range = Fin 2, range_m = d\<rparr>"

section \<open>Floats: evaluation and rounding\<close>

declare py_mul.simps [simp del]

lemmas float_eval =
  py_lit_def round_double_def exponent_def bisect_def pow2_def round_even_def Let_def

text \<open>
  What the rounding does. The bisection finds the binary exponent: on the range of the
  normal doubles and beyond, up to \<open>pow2 1026\<close>, \<open>x\<close> lies between \<open>pow2 (exponent x)\<close>
  and the next power of two; below it the exponent stays \<open>-1022\<close>. The rounded value is
  within half a unit in the last place of \<open>x\<close>.
\<close>

lemma pow2_powi: "pow2 e = 2 powi e"
proof (cases "0 \<le> e")
  case True
  then show ?thesis by (simp add: pow2_def power_int_def)
next
  case False
  then show ?thesis by (simp add: pow2_def power_int_def power_inverse field_simps)
qed

lemma pow2_pos: "0 < pow2 e"
  by (simp add: pow2_powi)

lemma pow2_add: "pow2 (a + b) = pow2 a * pow2 b"
  by (simp add: pow2_powi power_int_add)

lemma bisect_step:
  assumes "pow2 e \<le> x" and "x < pow2 (e + 2 * d)"
  shows "pow2 (bisect x d e) \<le> x \<and> x < pow2 (bisect x d e + d)"
proof (cases "pow2 (e + d) \<le> x")
  case True
  with assms(2) show ?thesis by (simp add: bisect_def algebra_simps)
next
  case False
  with assms(1) show ?thesis by (simp add: bisect_def)
qed

lemma fold_bisect:
  "pow2 e \<le> x \<Longrightarrow> x < pow2 (e + 2 ^ k) \<Longrightarrow>
     pow2 (fold (bisect x) (map (\<lambda>i. 2 ^ i) (rev [0..<k])) e) \<le> x \<and>
     x < pow2 (fold (bisect x) (map (\<lambda>i. 2 ^ i) (rev [0..<k])) e + 1)"
proof (induction k arbitrary: e)
  case 0
  then show ?case by simp
next
  case (Suc k)
  from Suc.prems have "pow2 e \<le> x" and "x < pow2 (e + 2 * 2 ^ k)"
    by simp_all
  then have "pow2 (bisect x (2 ^ k) e) \<le> x \<and> x < pow2 (bisect x (2 ^ k) e + 2 ^ k)"
    by (rule bisect_step)
  then have "pow2 (fold (bisect x) (map (\<lambda>i. 2 ^ i) (rev [0..<k])) (bisect x (2 ^ k) e)) \<le> x \<and>
     x < pow2 (fold (bisect x) (map (\<lambda>i. 2 ^ i) (rev [0..<k])) (bisect x (2 ^ k) e) + 1)"
    using Suc.IH by blast
  moreover have "map (\<lambda>i. 2 ^ i) (rev [0..<Suc k]) = (2 ^ k :: int) # map (\<lambda>i. 2 ^ i) (rev [0..<k])"
    by simp
  ultimately show ?case by (simp only: fold_simps)
qed

lemma halvings:
  "([1024, 512, 256, 128, 64, 32, 16, 8, 4, 2, 1] :: int list) =
     map (\<lambda>i. 2 ^ i) (rev [0..<11])"
  by (simp add: upt_rec)

lemma exponent_bounds:
  assumes "pow2 (- 1022) \<le> x" and "x < pow2 1026"
  shows "pow2 (exponent x) \<le> x \<and> x < pow2 (exponent x + 1)"
proof -
  have "x < pow2 (- 1022 + 2 ^ 11)"
    using assms(2) by simp
  with assms(1) show ?thesis
    unfolding exponent_def halvings by (rule fold_bisect)
qed

lemma pow2_mono: "a \<le> b \<Longrightarrow> pow2 a \<le> pow2 b"
  by (simp add: pow2_powi power_int_increasing)

lemma bisect_below: "x < pow2 e \<Longrightarrow> 0 \<le> d \<Longrightarrow> bisect x d e = e"
  using pow2_mono [of e "e + d"] by (simp add: bisect_def)

lemma exponent_subnormal:
  assumes "x < pow2 (- 1022)"
  shows "exponent x = - 1022"
  unfolding exponent_def fold_simps id_apply o_apply
  by (simp only: bisect_below [OF assms] zero_le_numeral zero_le_one)

lemma round_even_error: "\<bar>of_int (round_even x) - x\<bar> \<le> 1 / 2"
  unfolding round_even_def Let_def by (auto; linarith)

lemma round_double_error:
  assumes "round_double x = Fin r"
  shows "\<bar>r - x\<bar> \<le> pow2 (exponent \<bar>x\<bar> - 52) / 2"
proof -
  let ?u = "pow2 (exponent \<bar>x\<bar> - 52)"
  have u: "0 < ?u" by (rule pow2_pos)
  from assms have r: "r = of_int (round_even (x / ?u)) * ?u"
    by (simp add: round_double_def Let_def split: if_splits)
  have "\<bar>of_int (round_even (x / ?u)) - x / ?u\<bar> \<le> 1 / 2"
    by (rule round_even_error)
  then have "\<bar>of_int (round_even (x / ?u)) - x / ?u\<bar> * ?u \<le> 1 / 2 * ?u"
    using u by (simp add: mult_right_mono)
  moreover have "\<bar>of_int (round_even (x / ?u)) - x / ?u\<bar> * ?u = \<bar>r - x\<bar>"
    using u by (simp add: r abs_mult_pos left_diff_distrib)
  ultimately show ?thesis by simp
qed

text \<open>
  The literals of the source as Python reads them (\<^verbatim>\<open>fractions.Fraction(0.3)\<close> and so
  on). The decimal values are written here as reduced fractions: \<open>1 / 5\<close> is 0.2,
  \<open>6 / 5\<close> is 1.2 and \<open>9 / 25\<close> is 0.36.
\<close>

lemma py_lit_zero: "py_lit 0 = Fin 0"
  by (simp add: float_eval)

lemma py_lit_half: "py_lit (1 / 2) = Fin (1 / 2)"
  by (simp add: float_eval)

lemma py_lit_0_3: "py_lit (3 / 10) = Fin (5404319552844595 / 18014398509481984)"
  by (simp add: float_eval)

lemma py_lit_0_2: "py_lit (1 / 5) = Fin (3602879701896397 / 18014398509481984)"
  by (simp add: float_eval)

lemma py_lit_1_2: "py_lit (6 / 5) = Fin (5404319552844595 / 4503599627370496)"
  by (simp add: float_eval)

lemma py_lit_0_36: "py_lit (9 / 25) = Fin (3242591731706757 / 9007199254740992)"
  by (simp add: float_eval)

text \<open>
  Products at the edge of the side zone, as Python computes them: \<^verbatim>\<open>0.3 * 1.2\<close> is the
  double that \<^verbatim>\<open>0.36\<close> denotes; \<^verbatim>\<open>0.75 * 1.2\<close> is \<^verbatim>\<open>0.8999999999999999\<close>, below the
  real product 0.9; \<^verbatim>\<open>0.8333333333333334 * 1.2\<close> is \<^verbatim>\<open>1.0\<close>. The halved turn rates
  of the constructor's 0.5 are exact.
\<close>

lemma side_zone_0_3:
  "py_mul (Fin (5404319552844595 / 18014398509481984))
     (Fin (5404319552844595 / 4503599627370496)) =
   Fin (3242591731706757 / 9007199254740992)"
  by (simp add: py_mul.simps float_eval)

lemma side_zone_0_75:
  "py_mul (Fin (3 / 4)) (Fin (5404319552844595 / 4503599627370496)) =
   Fin (2026619832316723 / 2251799813685248)"
  by (simp add: py_mul.simps float_eval)

lemma side_zone_0_8333333333333334:
  "py_mul (Fin (7505999378950827 / 9007199254740992))
     (Fin (5404319552844595 / 4503599627370496)) = Fin 1"
  by (simp add: py_mul.simps float_eval)

lemma side_zone_0:
  "py_mul (Fin 0) (Fin (5404319552844595 / 4503599627370496)) = Fin 0"
  by (simp add: py_mul.simps float_eval)

lemma quarter_turn:
  "py_mul (Fin (1 / 2)) (Fin (1 / 2)) = Fin (1 / 4)"
  "py_mul (Fin (- (1 / 2))) (Fin (1 / 2)) = Fin (- (1 / 4))"
  by (simp_all add: py_mul.simps float_eval)

lemmas float_values =
  py_lit_zero py_lit_half py_lit_0_3 py_lit_0_2 py_lit_1_2 py_lit_0_36
  side_zone_0_3 side_zone_0_75 side_zone_0_8333333333333334 side_zone_0 quarter_turn

text \<open>
  Overflow gives an infinity, and in the subnormal range the doubles are the multiples of
  \<open>pow2 (- 1074)\<close>, with a tie going to the even multiple.
\<close>

lemma round_double_overflow:
  "py_mul (Fin (pow2 1023)) (Fin 2) = PInf" "py_mul (Fin (- pow2 1023)) (Fin 2) = NInf"
  by (simp_all add: py_mul.simps float_eval)

lemma round_double_underflow:
  "py_mul (Fin (pow2 (- 1074))) (Fin (1 / 2)) = Fin 0"
  "py_mul (Fin (3 * pow2 (- 1074))) (Fin (1 / 2)) = Fin (2 * pow2 (- 1074))"
  by (simp_all add: py_mul.simps float_eval)

section \<open>The decision\<close>

lemma cmd_vel_pub_avoid_obstacle:
  "cmd_vel_pub (avoid_obstacle s) = cmd_vel_pub s @ [compute_command s]"
  by (simp add: compute_command_def avoid_obstacle_def publish_def loginfo_def logwarn_def Let_def)

lemma compute_command_blocked:
  assumes "py_lt (front_dist s) (obstacle_threshold s)"
  shows "compute_command s =
     Twist_init\<lparr>linear_x := Fin 0,
       angular_z := (if py_gt (left_dist s) (right_dist s) then angular_speed s
                     else py_neg (angular_speed s))\<rparr>"
  using assms
  by (simp add: compute_command_def avoid_obstacle_def publish_def loginfo_def logwarn_def Let_def)

lemma compute_command_clear:
  assumes "\<not> py_lt (front_dist s) (obstacle_threshold s)"
  shows "compute_command s =
     Twist_init\<lparr>linear_x := linear_speed s,
       angular_z :=
         (if py_lt (left_dist s) (py_mul (obstacle_threshold s) (py_lit 1.2))
          then py_mul (py_neg (angular_speed s)) (Fin 0.5)
          else if py_lt (right_dist s) (py_mul (obstacle_threshold s) (py_lit 1.2))
          then py_mul (angular_speed s) (Fin 0.5)
          else Fin 0)\<rparr>"
  using assms
  by (simp add: compute_command_def avoid_obstacle_def publish_def loginfo_def logwarn_def Let_def)

lemma tick_log_blocked:
  assumes "py_lt (front_dist s) (obstacle_threshold s)"
  shows "tick_log s =
     [LogWarn FrontObstacle,
      LogInfo (if py_gt (left_dist s) (right_dist s) then TurningLeft else TurningRight)]"
  using assms
  by (simp add: tick_log_def avoid_obstacle_def publish_def loginfo_def logwarn_def Let_def)

lemma tick_log_clear:
  assumes "\<not> py_lt (front_dist s) (obstacle_threshold s)"
  shows "tick_log s =
     (if py_lt (left_dist s) (py_mul (obstacle_threshold s) (py_lit 1.2))
      then [LogInfo LeftObstacle]
      else if py_lt (right_dist s) (py_mul (obstacle_threshold s) (py_lit 1.2))
      then [LogInfo RightObstacle]
      else [])"
  using assms
  by (simp add: tick_log_def avoid_obstacle_def publish_def loginfo_def logwarn_def Let_def)

lemma py_ge_not_lt: "py_ge a b \<Longrightarrow> \<not> py_lt a b"
  by (cases a; cases b) (auto simp: py_ge_def)

lemma py_lt_irrefl: "\<not> py_lt a a"
  by (cases a) auto

lemma py_lt_PInf: "\<not> py_lt PInf b"
  by (cases b) auto

lemma py_lt_NaN_right: "\<not> py_lt a NaN"
  by (cases a) auto

lemma scene_fields:
  "left_dist (scene l f r) = l" "front_dist (scene l f r) = f" "right_dist (scene l f r) = r"
  "obstacle_threshold (scene l f r) = py_lit 0.3" "linear_speed (scene l f r) = py_lit 0.2"
  "angular_speed (scene l f r) = Fin 0.5" "rate (scene l f r) = 10"
  "cmd_vel_pub (scene l f r) = []" "rosout (scene l f r) = [LogInfo NodeStarted]"
  by (simp_all add: scene_def)

lemma init_None: "init None = Inr (scene PInf PInf PInf)"
  by (simp add: init_def scene_def)

text \<open>
  The decision at the edge of the side zone, with the front clear. At the threshold 0.75
  the edge is the double \<^verbatim>\<open>0.8999999999999999\<close>: a left reading equal to it does
  nothing, the next double below it nudges to the right. At the threshold
  \<^verbatim>\<open>0.8333333333333334\<close> the edge is 1.0, and at the default threshold it is the double
  that \<^verbatim>\<open>0.36\<close> denotes.
\<close>

lemma side_zone_edge_0_75:
  "compute_command
     ((scene (Fin (2026619832316723 / 2251799813685248)) (Fin 1) PInf)
        \<lparr>obstacle_threshold := Fin 0.75\<rparr>) = Twist_init\<lparr>linear_x := py_lit 0.2\<rparr>"
  "tick_log
     ((scene (Fin (2026619832316723 / 2251799813685248)) (Fin 1) PInf)
        \<lparr>obstacle_threshold := Fin 0.75\<rparr>) = []"
  "compute_command
     ((scene (Fin (8106479329266891 / 9007199254740992)) (Fin 1) PInf)
        \<lparr>obstacle_threshold := Fin 0.75\<rparr>) =
   Twist_init\<lparr>linear_x := py_lit 0.2, angular_z := Fin (- 0.25)\<rparr>"
  by (simp_all add: compute_command_clear tick_log_clear scene_def float_values py_lt_PInf
      Twist_init_def)

lemma side_zone_edge_0_8333333333333334:
  "compute_command
     ((scene (Fin 1) (Fin 2) PInf)
        \<lparr>obstacle_threshold := Fin (7505999378950827 / 9007199254740992)\<rparr>) =
   Twist_init\<lparr>linear_x := py_lit 0.2\<rparr>"
  by (simp add: compute_command_clear scene_def float_values py_lt_PInf Twist_init_def)

lemma side_zone_edge_default:
  "compute_command (scene (py_lit 0.36) (Fin 0.5) PInf) = Twist_init\<lparr>linear_x := py_lit 0.2\<rparr>"
  "compute_command (scene (Fin 0.25) (Fin 0.5) PInf) =
     Twist_init\<lparr>linear_x := py_lit 0.2, angular_z := Fin (- 0.25)\<rparr>"
  by (simp_all add: compute_command_clear scene_def float_values py_lt_PInf Twist_init_def)

text \<open>
  C1. When the front reading is below the threshold, the command has no forward speed
  and turns at the full rate: to the left (\<open>+angular_speed\<close>) when the left reading is
  greater than the right one, to the right (\<open>-angular_speed\<close>) otherwise, so also when
  the two readings are equal.
\<close>

theorem front_blocked_command:
  "py_lt (front_dist s) (obstacle_threshold s) \<Longrightarrow>
     linear_x (compute_command s) = Fin 0 \<and>
     angular_z (compute_command s) =
       (if py_gt (left_dist s) (right_dist s) then angular_speed s
        else py_neg (angular_speed s)) \<and>
     (left_dist s = right_dist s \<longrightarrow>
        angular_z (compute_command s) = py_neg (angular_speed s))"
  by (simp add: compute_command_blocked py_gt_def py_lt_irrefl)

theorem front_blocked_command_witness:
  "py_lt (front_dist (scene (Fin 0.5) (py_lit 0.2) (Fin 0.5)))
     (obstacle_threshold (scene (Fin 0.5) (py_lit 0.2) (Fin 0.5))) \<and>
   left_dist (scene (Fin 0.5) (py_lit 0.2) (Fin 0.5)) =
     right_dist (scene (Fin 0.5) (py_lit 0.2) (Fin 0.5)) \<and>
   linear_x (compute_command (scene (Fin 0.5) (py_lit 0.2) (Fin 0.5))) = Fin 0 \<and>
   angular_z (compute_command (scene (Fin 0.5) (py_lit 0.2) (Fin 0.5))) = Fin (- 0.5)"
  using front_blocked_command [of "scene (Fin 0.5) (py_lit 0.2) (Fin 0.5)"]
  by (simp add: scene_fields py_gt_def float_values)

text \<open>
  C2. When the front reading is at least the threshold, the command keeps the forward
  speed \<open>linear_speed\<close>, and the side corrections exclude each other with the left one
  first: a left reading inside the side zone gives \<open>-angular_speed * 0.5\<close>, also when
  the right reading is inside it too; otherwise a right reading inside the side zone
  gives \<open>+angular_speed * 0.5\<close>; otherwise the turn rate is zero. Inside the side zone
  means below the float product of the threshold and 1.2.
\<close>

theorem front_clear_command:
  "py_ge (front_dist s) (obstacle_threshold s) \<Longrightarrow>
     linear_x (compute_command s) = linear_speed s \<and>
     angular_z (compute_command s) =
       (if py_lt (left_dist s) (py_mul (obstacle_threshold s) side_margin_factor)
        then py_mul (py_neg (angular_speed s)) (Fin 0.5)
        else if py_lt (right_dist s) (py_mul (obstacle_threshold s) side_margin_factor)
        then py_mul (angular_speed s) (Fin 0.5)
        else Fin 0) \<and>
     (py_lt (left_dist s) (py_mul (obstacle_threshold s) side_margin_factor) \<and>
      py_lt (right_dist s) (py_mul (obstacle_threshold s) side_margin_factor) \<longrightarrow>
        angular_z (compute_command s) = py_mul (py_neg (angular_speed s)) (Fin 0.5))"
  by (simp add: compute_command_clear py_ge_not_lt side_margin_factor_def)

theorem front_clear_command_witness:
  "py_ge (front_dist (scene (Fin 0.25) (Fin 0.5) (Fin 0.25)))
     (obstacle_threshold (scene (Fin 0.25) (Fin 0.5) (Fin 0.25))) \<and>
   py_lt (left_dist (scene (Fin 0.25) (Fin 0.5) (Fin 0.25)))
     (py_mul (obstacle_threshold (scene (Fin 0.25) (Fin 0.5) (Fin 0.25))) side_margin_factor) \<and>
   py_lt (right_dist (scene (Fin 0.25) (Fin 0.5) (Fin 0.25)))
     (py_mul (obstacle_threshold (scene (Fin 0.25) (Fin 0.5) (Fin 0.25))) side_margin_factor) \<and>
   linear_x (compute_command (scene (Fin 0.25) (Fin 0.5) (Fin 0.25))) = py_lit 0.2 \<and>
   angular_z (compute_command (scene (Fin 0.25) (Fin 0.5) (Fin 0.25))) = Fin (- 0.25)"
  using front_clear_command [of "scene (Fin 0.25) (Fin 0.5) (Fin 0.25)"]
  by (simp add: scene_fields py_ge_def side_margin_factor_def float_values)

text \<open>
  C3. Every threshold comparison is strict. A front reading equal to the threshold does
  not take the front branch: the warning is not logged and the forward speed is
  \<open>linear_speed\<close>. A side reading equal to the float product of the threshold and 1.2
  does not take that side's branch; with the front not blocked and the other side outside
  its zone, the turn rate is zero.
\<close>

theorem threshold_comparisons_strict:
  "(front_dist s = obstacle_threshold s \<longrightarrow>
      LogWarn FrontObstacle \<notin> set (tick_log s) \<and>
      linear_x (compute_command s) = linear_speed s) \<and>
   (left_dist s = py_mul (obstacle_threshold s) side_margin_factor \<longrightarrow>
      LogInfo LeftObstacle \<notin> set (tick_log s)) \<and>
   (right_dist s = py_mul (obstacle_threshold s) side_margin_factor \<longrightarrow>
      LogInfo RightObstacle \<notin> set (tick_log s)) \<and>
   (left_dist s = py_mul (obstacle_threshold s) side_margin_factor \<and>
    \<not> py_lt (front_dist s) (obstacle_threshold s) \<and>
    \<not> py_lt (right_dist s) (py_mul (obstacle_threshold s) side_margin_factor) \<longrightarrow>
      angular_z (compute_command s) = Fin 0) \<and>
   (right_dist s = py_mul (obstacle_threshold s) side_margin_factor \<and>
    \<not> py_lt (front_dist s) (obstacle_threshold s) \<and>
    \<not> py_lt (left_dist s) (py_mul (obstacle_threshold s) side_margin_factor) \<longrightarrow>
      angular_z (compute_command s) = Fin 0)"
proof (cases "py_lt (front_dist s) (obstacle_threshold s)")
  case True
  then have "front_dist s \<noteq> obstacle_threshold s"
    using py_lt_irrefl [of "front_dist s"] by auto
  with True show ?thesis
    by (simp add: tick_log_blocked)
next
  case False
  then show ?thesis
    by (auto simp add: tick_log_clear compute_command_clear side_margin_factor_def py_lt_irrefl)
qed

theorem threshold_comparisons_strict_witness:
  "front_dist (scene (py_lit 0.36) (py_lit 0.3) (py_lit 0.36)) =
     obstacle_threshold (scene (py_lit 0.36) (py_lit 0.3) (py_lit 0.36)) \<and>
   left_dist (scene (py_lit 0.36) (py_lit 0.3) (py_lit 0.36)) =
     py_mul (obstacle_threshold (scene (py_lit 0.36) (py_lit 0.3) (py_lit 0.36))) side_margin_factor \<and>
   right_dist (scene (py_lit 0.36) (py_lit 0.3) (py_lit 0.36)) =
     py_mul (obstacle_threshold (scene (py_lit 0.36) (py_lit 0.3) (py_lit 0.36))) side_margin_factor \<and>
   LogWarn FrontObstacle \<notin> set (tick_log (scene (py_lit 0.36) (py_lit 0.3) (py_lit 0.36))) \<and>
   LogInfo LeftObstacle \<notin> set (tick_log (scene (py_lit 0.36) (py_lit 0.3) (py_lit 0.36))) \<and>
   LogInfo RightObstacle \<notin> set (tick_log (scene (py_lit 0.36) (py_lit 0.3) (py_lit 0.36))) \<and>
   linear_x (compute_command (scene (py_lit 0.36) (py_lit 0.3) (py_lit 0.36))) = py_lit 0.2 \<and>
   angular_z (compute_command (scene (py_lit 0.36) (py_lit 0.3) (py_lit 0.36))) = Fin 0"
  using threshold_comparisons_strict [of "scene (py_lit 0.36) (py_lit 0.3) (py_lit 0.36)"]
  by (simp add: scene_fields side_margin_factor_def float_values)

text \<open>
  C5. In the state the constructor leaves (no callback has run, the three readings are
  \<open>+\<infinity>\<close>) the command is straight ahead: forward at \<open>linear_speed\<close>, turn rate zero,
  whatever the threshold parameter. More generally a reading of \<open>+\<infinity>\<close> never takes the
  branch of its sensor: none of the messages of that branch is logged, and a front
  reading of \<open>+\<infinity>\<close> keeps the forward speed.
\<close>

theorem unknown_readings:
  "(init param = Inr s0 \<longrightarrow>
      readings s0 = (PInf, PInf, PInf) \<and>
      linear_x (compute_command s0) = linear_speed s0 \<and>
      angular_z (compute_command s0) = Fin 0) \<and>
   (front_dist s = PInf \<longrightarrow>
      LogWarn FrontObstacle \<notin> set (tick_log s) \<and>
      linear_x (compute_command s) = linear_speed s) \<and>
   (left_dist s = PInf \<longrightarrow> LogInfo LeftObstacle \<notin> set (tick_log s)) \<and>
   (right_dist s = PInf \<longrightarrow> LogInfo RightObstacle \<notin> set (tick_log s))"
proof -
  have first: "readings s0 = (PInf, PInf, PInf) \<and>
      linear_x (compute_command s0) = linear_speed s0 \<and>
      angular_z (compute_command s0) = Fin 0" if "init param = Inr s0"
  proof -
    from that have r: "left_dist s0 = PInf" "front_dist s0 = PInf" "right_dist s0 = PInf"
      by (auto simp add: init_def)
    then have "\<not> py_lt (front_dist s0) (obstacle_threshold s0)"
      by (simp add: py_lt_PInf)
    with r show ?thesis
      by (simp add: compute_command_clear py_lt_PInf readings_def)
  qed
  have front: "LogWarn FrontObstacle \<notin> set (tick_log s) \<and>
      linear_x (compute_command s) = linear_speed s" if "front_dist s = PInf"
  proof -
    from that have "\<not> py_lt (front_dist s) (obstacle_threshold s)"
      by (simp add: py_lt_PInf)
    then show ?thesis
      by (simp add: compute_command_clear tick_log_clear)
  qed
  have left: "LogInfo LeftObstacle \<notin> set (tick_log s)" if "left_dist s = PInf"
    using that
    by (cases "py_lt (front_dist s) (obstacle_threshold s)")
       (simp_all add: tick_log_blocked tick_log_clear py_lt_PInf)
  have right: "LogInfo RightObstacle \<notin> set (tick_log s)" if "right_dist s = PInf"
    using that
    by (cases "py_lt (front_dist s) (obstacle_threshold s)")
       (simp_all add: tick_log_blocked tick_log_clear py_lt_PInf)
  from first front left right show ?thesis by blast
qed

theorem unknown_readings_witness:
  "init None = Inr (scene PInf PInf PInf) \<and>
   front_dist (scene PInf PInf PInf) = PInf \<and>
   left_dist (scene PInf PInf PInf) = PInf \<and>
   right_dist (scene PInf PInf PInf) = PInf \<and>
   linear_x (compute_command (scene PInf PInf PInf)) = py_lit 0.2 \<and>
   angular_z (compute_command (scene PInf PInf PInf)) = Fin 0 \<and>
   LogWarn FrontObstacle \<notin> set (tick_log (scene PInf PInf PInf)) \<and>
   LogInfo LeftObstacle \<notin> set (tick_log (scene PInf PInf PInf)) \<and>
   LogInfo RightObstacle \<notin> set (tick_log (scene PInf PInf PInf))"
  using unknown_readings [of None "scene PInf PInf PInf" "scene PInf PInf PInf"]
  by (simp add: init_None scene_fields)

lemma readings_avoid_obstacle: "readings (avoid_obstacle s) = readings s"
  by (simp add: readings_def avoid_obstacle_def publish_def loginfo_def logwarn_def Let_def)

lemma parameters_avoid_obstacle: "parameters (avoid_obstacle s) = parameters s"
  by (simp add: parameters_def avoid_obstacle_def publish_def loginfo_def logwarn_def Let_def)

text \<open>
  C8. A call of \<open>avoid_obstacle\<close> publishes exactly one command. That command is
  determined by the three readings and the parameters: two states that agree on them
  get the same command, whatever has been published or logged before; so a second call
  with no callback in between publishes the same command again.
\<close>

theorem decision_deterministic:
  "cmd_vel_pub (avoid_obstacle s) = cmd_vel_pub s @ [compute_command s] \<and>
   cmd_vel_pub (avoid_obstacle (avoid_obstacle s)) =
     cmd_vel_pub s @ [compute_command s, compute_command s] \<and>
   (readings s = readings s' \<and> parameters s = parameters s' \<longrightarrow>
      compute_command s = compute_command s')"
proof -
  have same: "compute_command a = compute_command b"
    if "readings a = readings b" and "parameters a = parameters b" for a b
  proof -
    from that have eq: "left_dist a = left_dist b" "front_dist a = front_dist b"
      "right_dist a = right_dist b" "obstacle_threshold a = obstacle_threshold b"
      "linear_speed a = linear_speed b" "angular_speed a = angular_speed b"
      by (simp_all add: readings_def parameters_def)
    show ?thesis
    proof (cases "py_lt (front_dist a) (obstacle_threshold a)")
      case True
      with eq have "py_lt (front_dist b) (obstacle_threshold b)" by simp
      with True eq show ?thesis by (simp add: compute_command_blocked)
    next
      case False
      with eq have "\<not> py_lt (front_dist b) (obstacle_threshold b)" by simp
      with False eq show ?thesis by (simp add: compute_command_clear)
    qed
  qed
  have again: "compute_command (avoid_obstacle s) = compute_command s"
    by (rule same) (rule readings_avoid_obstacle parameters_avoid_obstacle)+
  have "cmd_vel_pub (avoid_obstacle (avoid_obstacle s)) =
      cmd_vel_pub (avoid_obstacle s) @ [compute_command (avoid_obstacle s)]"
    by (rule cmd_vel_pub_avoid_obstacle)
  with again have twice: "cmd_vel_pub (avoid_obstacle (avoid_obstacle s)) =
      cmd_vel_pub s @ [compute_command s, compute_command s]"
    by (simp add: cmd_vel_pub_avoid_obstacle)
  have once: "cmd_vel_pub (avoid_obstacle s) = cmd_vel_pub s @ [compute_command s]"
    by (rule cmd_vel_pub_avoid_obstacle)
  have pure: "readings s = readings s' \<and> parameters s = parameters s' \<longrightarrow>
      compute_command s = compute_command s'"
    using same [of s s'] by blast
  from once twice pure show ?thesis by (intro conjI)
qed

theorem decision_deterministic_witness:
  "readings (scene (Fin 1) (py_lit 0.2) (Fin 0.5)) =
     readings (avoid_obstacle (scene (Fin 1) (py_lit 0.2) (Fin 0.5))) \<and>
   parameters (scene (Fin 1) (py_lit 0.2) (Fin 0.5)) =
     parameters (avoid_obstacle (scene (Fin 1) (py_lit 0.2) (Fin 0.5))) \<and>
   cmd_vel_pub (scene (Fin 1) (py_lit 0.2) (Fin 0.5)) \<noteq>
     cmd_vel_pub (avoid_obstacle (scene (Fin 1) (py_lit 0.2) (Fin 0.5))) \<and>
   compute_command (scene (Fin 1) (py_lit 0.2) (Fin 0.5)) =
     compute_command (avoid_obstacle (scene (Fin 1) (py_lit 0.2) (Fin 0.5)))"
proof -
  let ?s = "scene (Fin 1) (py_lit 0.2) (Fin 0.5)"
  have r: "readings ?s = readings (avoid_obstacle ?s)"
    by (simp only: readings_avoid_obstacle)
  have p: "parameters ?s = parameters (avoid_obstacle ?s)"
    by (simp only: parameters_avoid_obstacle)
  have n: "cmd_vel_pub ?s \<noteq> cmd_vel_pub (avoid_obstacle ?s)"
    by (simp add: cmd_vel_pub_avoid_obstacle)
  from decision_deterministic [of ?s "avoid_obstacle ?s"] r p
  have "compute_command ?s = compute_command (avoid_obstacle ?s)"
    by blast
  with r p n show ?thesis by blast
qed

text \<open>
  C10. A callback overwrites the reading of its own sensor with the range of the message
  and leaves the two other readings, the parameters, and what has been published and
  logged as they were. \<open>avoid_obstacle\<close> changes no reading and no parameter.
\<close>

theorem callbacks_and_decision_frame:
  "left_dist (left_cb msg s) = range_m msg \<and>
   front_dist (left_cb msg s) = front_dist s \<and>
   right_dist (left_cb msg s) = right_dist s \<and>
   parameters (left_cb msg s) = parameters s \<and>
   cmd_vel_pub (left_cb msg s) = cmd_vel_pub s \<and>
   rosout (left_cb msg s) = rosout s \<and>
   front_dist (front_cb msg s) = range_m msg \<and>
   left_dist (front_cb msg s) = left_dist s \<and>
   right_dist (front_cb msg s) = right_dist s \<and>
   parameters (front_cb msg s) = parameters s \<and>
   cmd_vel_pub (front_cb msg s) = cmd_vel_pub s \<and>
   rosout (front_cb msg s) = rosout s \<and>
   right_dist (right_cb msg s) = range_m msg \<and>
   left_dist (right_cb msg s) = left_dist s \<and>
   front_dist (right_cb msg s) = front_dist s \<and>
   parameters (right_cb msg s) = parameters s \<and>
   cmd_vel_pub (right_cb msg s) = cmd_vel_pub s \<and>
   rosout (right_cb msg s) = rosout s \<and>
   readings (avoid_obstacle s) = readings s \<and>
   parameters (avoid_obstacle s) = parameters s"
proof -
  have l: "left_cb msg s = s\<lparr>left_dist := range_m msg\<rparr>" by (simp add: left_cb_def)
  have f: "front_cb msg s = s\<lparr>front_dist := range_m msg\<rparr>" by (simp add: front_cb_def)
  have r: "right_cb msg s = s\<lparr>right_dist := range_m msg\<rparr>" by (simp add: right_cb_def)
  have a: "readings (avoid_obstacle s) = readings s"
    by (rule readings_avoid_obstacle)
  have b: "parameters (avoid_obstacle s) = parameters s"
    by (rule parameters_avoid_obstacle)
  show ?thesis
    unfolding l f r a b by (simp add: parameters_def)
qed

lemma parameters_deliver: "parameters (deliver c s) = parameters s"
  by (cases c) (simp_all add: parameters_def left_cb_def front_cb_def right_cb_def)

lemma parameters_exec: "parameters (exec calls s) = parameters s"
proof (induction calls arbitrary: s)
  case Nil
  show ?case by simp
next
  case (Cons a calls)
  show ?case
  proof (cases a)
    case (Deliver c)
    with Cons show ?thesis by (simp add: parameters_deliver)
  next
    case Decide
    with Cons show ?thesis by (simp add: parameters_avoid_obstacle)
  qed
qed

lemma init_parameters:
  "init param = Inr s0 \<Longrightarrow> linear_speed s0 = py_lit 0.2 \<and> angular_speed s0 = Fin 0.5"
  by (auto simp add: init_def)

text \<open>
  C9. In every state that the node reaches from its constructor through callbacks and
  decisions, the command has forward speed 0 or \<open>linear_speed\<close> and one of the five turn
  rates \<open>-angular_speed\<close>, \<open>-angular_speed * 0.5\<close>, 0, \<open>angular_speed * 0.5\<close>,
  \<open>angular_speed\<close>; a turn at the full rate comes only with forward speed 0, and a
  forward speed other than 0 only with a turn rate of at most \<open>angular_speed * 0.5\<close> in
  absolute value.
\<close>

theorem command_range:
  "init param = Inr s0 \<Longrightarrow> s = exec calls s0 \<Longrightarrow>
     (linear_x (compute_command s) = Fin 0 \<or>
      linear_x (compute_command s) = linear_speed s) \<and>
     angular_z (compute_command s) \<in>
       {py_neg (angular_speed s), py_mul (py_neg (angular_speed s)) (Fin 0.5), Fin 0,
        py_mul (angular_speed s) (Fin 0.5), angular_speed s} \<and>
     (py_abs (angular_z (compute_command s)) = angular_speed s \<longrightarrow>
        linear_x (compute_command s) = Fin 0) \<and>
     (linear_x (compute_command s) \<noteq> Fin 0 \<longrightarrow>
        py_le (py_abs (angular_z (compute_command s)))
          (py_mul (angular_speed s) (Fin 0.5)))"
proof -
  assume i: "init param = Inr s0" and s: "s = exec calls s0"
  have "parameters s = parameters s0"
    unfolding s by (rule parameters_exec)
  with init_parameters [OF i]
  have sp: "linear_speed s = py_lit 0.2" "angular_speed s = Fin 0.5"
    by (simp_all add: parameters_def)
  show ?thesis
  proof (cases "py_lt (front_dist s) (obstacle_threshold s)")
    case True
    then show ?thesis
      by (simp add: compute_command_blocked sp)
  next
    case False
    then show ?thesis
      by (simp add: compute_command_clear sp float_values)
  qed
qed

theorem command_range_witness:
  "init None = Inr (scene PInf PInf PInf) \<and>
   py_abs (angular_z (compute_command
       (exec [Deliver (ToFront (infrared (py_lit 0.2))), Decide,
              Deliver (ToLeft (infrared (Fin 1)))] (scene PInf PInf PInf)))) =
     angular_speed
       (exec [Deliver (ToFront (infrared (py_lit 0.2))), Decide,
              Deliver (ToLeft (infrared (Fin 1)))] (scene PInf PInf PInf)) \<and>
   linear_x (compute_command
       (exec [Deliver (ToFront (infrared (py_lit 0.2))), Decide,
              Deliver (ToLeft (infrared (Fin 1)))] (scene PInf PInf PInf))) = Fin 0 \<and>
   linear_x (compute_command
       (exec [Decide, Deliver (ToLeft (infrared (Fin 0.25)))] (scene PInf PInf PInf))) \<noteq>
     Fin 0 \<and>
   py_le (py_abs (angular_z (compute_command
       (exec [Decide, Deliver (ToLeft (infrared (Fin 0.25)))] (scene PInf PInf PInf)))))
     (py_mul (angular_speed
       (exec [Decide, Deliver (ToLeft (infrared (Fin 0.25)))] (scene PInf PInf PInf)))
       (Fin 0.5))"
proof -
  define s1 where "s1 = exec [Deliver (ToFront (infrared (py_lit 0.2))), Decide,
              Deliver (ToLeft (infrared (Fin 1)))] (scene PInf PInf PInf)"
  define s2 where
    "s2 = exec [Decide, Deliver (ToLeft (infrared (Fin 0.25)))] (scene PInf PInf PInf)"
  have r1: "left_dist s1 = Fin 1" "front_dist s1 = py_lit 0.2" "right_dist s1 = PInf"
    by (simp_all add: s1_def left_cb_def front_cb_def infrared_def avoid_obstacle_def
        publish_def loginfo_def logwarn_def Let_def scene_fields py_lt_PInf)
  have r2: "left_dist s2 = Fin 0.25" "front_dist s2 = PInf" "right_dist s2 = PInf"
    by (simp_all add: s2_def left_cb_def front_cb_def infrared_def avoid_obstacle_def
        publish_def loginfo_def logwarn_def Let_def scene_fields py_lt_PInf)
  have "parameters s1 = parameters (scene PInf PInf PInf)"
    unfolding s1_def by (rule parameters_exec)
  then have p1: "obstacle_threshold s1 = py_lit 0.3" "linear_speed s1 = py_lit 0.2"
    "angular_speed s1 = Fin 0.5"
    by (simp_all add: parameters_def scene_fields)
  have "parameters s2 = parameters (scene PInf PInf PInf)"
    unfolding s2_def by (rule parameters_exec)
  then have p2: "obstacle_threshold s2 = py_lit 0.3" "linear_speed s2 = py_lit 0.2"
    "angular_speed s2 = Fin 0.5"
    by (simp_all add: parameters_def scene_fields)
  have b1: "py_lt (front_dist s1) (obstacle_threshold s1)"
    by (simp add: r1 p1 float_values)
  have b2: "\<not> py_lt (front_dist s2) (obstacle_threshold s2)"
    by (simp add: r2 p2 py_lt_PInf)
  have h1: "py_abs (angular_z (compute_command s1)) = angular_speed s1"
    by (simp add: compute_command_blocked [OF b1] r1 p1 py_gt_def)
  have h2: "linear_x (compute_command s2) \<noteq> Fin 0"
    by (simp add: compute_command_clear [OF b2] r2 p2 float_values)
  from command_range [OF init_None s1_def] h1
  have g1: "linear_x (compute_command s1) = Fin 0"
    by blast
  from command_range [OF init_None s2_def] h2
  have g2: "py_le (py_abs (angular_z (compute_command s2)))
     (py_mul (angular_speed s2) (Fin 0.5))"
    by blast
  from init_None h1 g1 h2 g2 show ?thesis
    unfolding s1_def s2_def by (intro conjI)
qed

section \<open>The loop and the final command\<close>

lemma cmd_vel_pub_deliver: "cmd_vel_pub (deliver c s) = cmd_vel_pub s"
  by (cases c) (simp_all add: left_cb_def front_cb_def right_cb_def)

lemma cmd_vel_pub_fold_deliver: "cmd_vel_pub (fold deliver msgs s) = cmd_vel_pub s"
  by (induction msgs arbitrary: s) (simp_all add: cmd_vel_pub_deliver)

lemma cmd_vel_pub_tick:
  "cmd_vel_pub (fold deliver msgs (avoid_obstacle s)) = cmd_vel_pub s @ [compute_command s]"
  by (simp add: cmd_vel_pub_fold_deliver cmd_vel_pub_avoid_obstacle)

lemma run_loop_running: "\<not> list_ex is_exit script \<Longrightarrow> run_loop script s = None"
proof (induction script arbitrary: s rule: ticks_run.induct)
  case 1
  show ?case by simp
next
  case (2 rest)
  then show ?case by simp
next
  case (3 msgs rest)
  then show ?case by simp
next
  case (4 msgs e rest)
  then show ?case by simp
qed

lemma run_loop_published:
  "list_ex is_exit script \<Longrightarrow>
     \<exists>exc s1 cmds. run_loop script s = Some (exc, s1) \<and>
       cmd_vel_pub s1 = cmd_vel_pub s @ cmds \<and> length cmds = ticks_run script"
proof (induction script arbitrary: s rule: ticks_run.induct)
  case 1
  then show ?case by simp
next
  case (2 rest)
  show ?case by simp
next
  case (3 msgs rest)
  let ?s1 = "fold deliver msgs (avoid_obstacle s)"
  from 3 have "list_ex is_exit rest" by simp
  from "3.IH" [OF this, of ?s1] obtain exc s2 cmds where
    r: "run_loop rest ?s1 = Some (exc, s2)" and
    p: "cmd_vel_pub s2 = cmd_vel_pub ?s1 @ cmds" and
    n: "length cmds = ticks_run rest"
    by blast
  from r have "run_loop (Tick msgs Slept # rest) s = Some (exc, s2)"
    by simp
  moreover from p have "cmd_vel_pub s2 = cmd_vel_pub s @ (compute_command s # cmds)"
    by (simp add: cmd_vel_pub_tick)
  moreover from n have "length (compute_command s # cmds) = ticks_run (Tick msgs Slept # rest)"
    by simp
  ultimately show ?case by blast
next
  case (4 msgs e rest)
  have "run_loop (Tick msgs (Raised e) # rest) s =
      Some (Some e, fold deliver msgs (avoid_obstacle s))"
    by simp
  moreover have "cmd_vel_pub (fold deliver msgs (avoid_obstacle s)) =
      cmd_vel_pub s @ [compute_command s]"
    by (rule cmd_vel_pub_tick)
  moreover have "length [compute_command s] = ticks_run (Tick msgs (Raised e) # rest)"
    by simp
  ultimately show ?case by blast
qed

lemma run_published:
  "run_loop script s = Some (exc, s1) \<Longrightarrow>
     \<exists>exc2 s2. run script s = Some (exc2, s2) \<and> cmd_vel_pub s2 = cmd_vel_pub s1 @ [Twist_init]"
proof -
  assume r: "run_loop script s = Some (exc, s1)"
  show ?thesis
  proof (cases exc)
    case None
    with r show ?thesis by (simp add: run_def publish_def)
  next
    case (Some e)
    with r show ?thesis by (cases e) (simp_all add: run_def publish_def loginfo_def)
  qed
qed

text \<open>
  C7. However the loop of \<open>run\<close> ends (\<^verbatim>\<open>rospy.is_shutdown()\<close> is true at the head of
  the loop, or the sleep raises \<^verbatim>\<open>ROSInterruptException\<close>, or it raises another
  exception) and whatever the state of the node, \<open>run\<close> comes to its end, and what it
  has published is the command of each tick followed by exactly one more message, the
  zero \<open>Twist\<close>: forward speed 0 and turn rate 0.
\<close>

theorem final_stop_command:
  "list_ex is_exit script \<Longrightarrow>
     \<exists>exc s' cmds. run script s = Some (exc, s') \<and>
       cmd_vel_pub s' = cmd_vel_pub s @ cmds @ [Twist_init] \<and>
       length cmds = ticks_run script \<and>
       linear_x Twist_init = Fin 0 \<and> angular_z Twist_init = Fin 0"
proof -
  assume "list_ex is_exit script"
  from run_loop_published [OF this, of s] obtain exc s1 cmds where
    r: "run_loop script s = Some (exc, s1)" and
    p: "cmd_vel_pub s1 = cmd_vel_pub s @ cmds" and
    n: "length cmds = ticks_run script"
    by blast
  from run_published [OF r] obtain exc2 s2 where
    "run script s = Some (exc2, s2)" and "cmd_vel_pub s2 = cmd_vel_pub s1 @ [Twist_init]"
    by blast
  with p n have "run script s = Some (exc2, s2) \<and>
       cmd_vel_pub s2 = cmd_vel_pub s @ cmds @ [Twist_init] \<and>
       length cmds = ticks_run script \<and>
       linear_x Twist_init = Fin 0 \<and> angular_z Twist_init = Fin 0"
    by (simp add: Twist_init_def)
  then show ?thesis by blast
qed

theorem final_stop_command_witness:
  "list_ex is_exit
     [Tick [ToFront (infrared (py_lit 0.2))] Slept, Tick [] (Raised ROSInterruptException)] \<and>
   (\<exists>exc s' cmds.
      run [Tick [ToFront (infrared (py_lit 0.2))] Slept, Tick [] (Raised ROSInterruptException)]
        (scene PInf PInf PInf) = Some (exc, s') \<and>
      cmd_vel_pub s' = cmds @ [Twist_init] \<and> length cmds = 2)"
  using final_stop_command
    [of "[Tick [ToFront (infrared (py_lit 0.2))] Slept, Tick [] (Raised ROSInterruptException)]"
        "scene PInf PInf PInf"]
  by (auto simp add: scene_fields numeral_2_eq_2)

text \<open>
  Three runs from the state the constructor leaves, one for each way out of the loop.
  In the first the front sensor reports 0.2 during the first sleep, and the second sleep
  is interrupted.
\<close>

lemma run_interrupted:
  "map_option (\<lambda>(exc, s). (exc, cmd_vel_pub s, rosout s))
     (run [Tick [ToFront (infrared (py_lit 0.2))] Slept, Tick [] (Raised ROSInterruptException)]
        (scene PInf PInf PInf)) =
   Some (None,
     [Twist_init\<lparr>linear_x := py_lit 0.2\<rparr>, Twist_init\<lparr>angular_z := Fin (- 0.5)\<rparr>, Twist_init],
     [LogInfo NodeStarted, LogWarn FrontObstacle, LogInfo TurningRight, LogInfo NodeStopped])"
  by (simp add: run_def avoid_obstacle_def publish_def loginfo_def logwarn_def Let_def
      front_cb_def infrared_def scene_def Twist_init_def py_gt_def py_lt_PInf float_values)

lemma run_shutdown:
  "map_option (\<lambda>(exc, s). (exc, cmd_vel_pub s, rosout s))
     (run [IsShutdown] (scene PInf PInf PInf)) =
   Some (None, [Twist_init], [LogInfo NodeStarted])"
  by (simp add: run_def publish_def Let_def scene_def)

lemma run_other_exception:
  "map_option (\<lambda>(exc, s). (exc, cmd_vel_pub s, rosout s))
     (run [Tick [] (Raised OtherException)] (scene PInf PInf PInf)) =
   Some (Some OtherException, [Twist_init\<lparr>linear_x := py_lit 0.2\<rparr>, Twist_init],
     [LogInfo NodeStarted])"
  by (simp add: run_def avoid_obstacle_def publish_def loginfo_def logwarn_def Let_def
      scene_def Twist_init_def py_lt_PInf)

lemma run_unfinished:
  "run [Tick [] Slept, Tick [] Slept] (scene PInf PInf PInf) = None"
  by (simp add: run_def run_loop_running)

section \<open>Construction\<close>

text \<open>
  C4, as the specification has it: construction fails with a configuration error, and
  the loop is not started, when a parameter is not positive or not finite. The
  constructor has no check: with a threshold of 0, of NaN or of \<open>+\<infinity>\<close> from the
  parameter server it returns a node, and the main block then runs the loop, which
  publishes a forward command.
\<close>

theorem construction_unchecked_counterexample:
  "\<not> positive_finite (Fin 0) \<and> \<not> isl (init (Some (Fin 0))) \<and>
   \<not> positive_finite NaN \<and> \<not> isl (init (Some NaN)) \<and>
   \<not> positive_finite PInf \<and> \<not> isl (init (Some PInf)) \<and>
   main (Some (Fin 0)) [] [Tick [] Slept, IsShutdown] =
     Some (None, [Twist_init\<lparr>linear_x := py_lit 0.2\<rparr>, Twist_init])"
  by (simp add: init_def main_def run_def avoid_obstacle_def publish_def loginfo_def
      logwarn_def Let_def Twist_init_def py_lt_PInf)

text \<open>
  C4, amended. Construction never fails and checks no parameter. The value that the
  parameter server holds for the threshold is stored as it is (0.3 when it holds none);
  the forward speed 0.2, the turn rate 0.5, the side factor 1.2 and the rate 10 are
  constants of the code, all positive and finite; and the main block goes on to \<open>run\<close>
  with the node constructed.
\<close>

theorem construction_never_fails:
  "\<exists>s. init param = Inr s \<and>
     obstacle_threshold s = (case param of None \<Rightarrow> py_lit 0.3 | Some v \<Rightarrow> v) \<and>
     linear_speed s = py_lit 0.2 \<and> positive_finite (linear_speed s) \<and>
     angular_speed s = Fin 0.5 \<and> positive_finite (angular_speed s) \<and>
     side_margin_factor = py_lit 1.2 \<and> positive_finite side_margin_factor \<and>
     rate s = 10 \<and>
     main param early script =
       (case run script (fold deliver early s) of
          None \<Rightarrow> None
        | Some (exc, s') \<Rightarrow>
            Some (if exc = Some ROSInterruptException then None else exc, cmd_vel_pub s'))"
  by (simp add: init_def main_def side_margin_factor_def float_values)

section \<open>Readings that are not numbers\<close>

text \<open>
  C6, as the specification has it: a NaN delivered by a callback is stored as \<open>+\<infinity>\<close>,
  and a decision with a NaN reading is the decision with \<open>+\<infinity>\<close> in its place. The
  callback stores the NaN; and with the front at 0.2 and the right at 0.5, a left reading
  of NaN turns right where a left reading of \<open>+\<infinity>\<close> turns left.
\<close>

theorem nan_reading_counterexample:
  "left_dist (left_cb (infrared NaN) (scene PInf (py_lit 0.2) (Fin 0.5))) = NaN \<and>
   left_dist (left_cb (infrared NaN) (scene PInf (py_lit 0.2) (Fin 0.5))) \<noteq> PInf \<and>
   angular_z (compute_command (scene NaN (py_lit 0.2) (Fin 0.5))) = Fin (- 0.5) \<and>
   angular_z (compute_command (scene PInf (py_lit 0.2) (Fin 0.5))) = Fin 0.5 \<and>
   compute_command (scene NaN (py_lit 0.2) (Fin 0.5)) \<noteq>
     compute_command (scene PInf (py_lit 0.2) (Fin 0.5))"
proof -
  have b: "py_lt (front_dist (scene l (py_lit 0.2) (Fin 0.5)))
      (obstacle_threshold (scene l (py_lit 0.2) (Fin 0.5)))" for l
    by (simp add: scene_fields float_values)
  have n: "angular_z (compute_command (scene NaN (py_lit 0.2) (Fin 0.5))) = Fin (- 0.5)"
    using compute_command_blocked [OF b [of NaN]] by (simp add: scene_fields py_gt_def)
  have p: "angular_z (compute_command (scene PInf (py_lit 0.2) (Fin 0.5))) = Fin 0.5"
    using compute_command_blocked [OF b [of PInf]] by (simp add: scene_fields py_gt_def)
  from n p have "compute_command (scene NaN (py_lit 0.2) (Fin 0.5)) \<noteq>
      compute_command (scene PInf (py_lit 0.2) (Fin 0.5))"
    by auto
  with n p show ?thesis
    by (simp add: left_cb_def infrared_def)
qed

text \<open>
  C6, amended. A callback stores a NaN as it is. A decision is made all the same, one
  command for each call. With the front or the right reading NaN, and with the left
  reading NaN while the front is not blocked, the command is the one with \<open>+\<infinity>\<close> in
  its place. With the left reading NaN and the front blocked, the command is the turn
  to the right at the full rate.
\<close>

theorem nan_readings:
  "(range_m msg = NaN \<longrightarrow>
      left_dist (left_cb msg s) = NaN \<and> front_dist (front_cb msg s) = NaN \<and>
      right_dist (right_cb msg s) = NaN) \<and>
   length (cmd_vel_pub (avoid_obstacle s)) = Suc (length (cmd_vel_pub s)) \<and>
   (front_dist s = NaN \<longrightarrow>
      compute_command s = compute_command (s\<lparr>front_dist := PInf\<rparr>)) \<and>
   (right_dist s = NaN \<longrightarrow>
      compute_command s = compute_command (s\<lparr>right_dist := PInf\<rparr>)) \<and>
   (left_dist s = NaN \<and> \<not> py_lt (front_dist s) (obstacle_threshold s) \<longrightarrow>
      compute_command s = compute_command (s\<lparr>left_dist := PInf\<rparr>)) \<and>
   (left_dist s = NaN \<and> py_lt (front_dist s) (obstacle_threshold s) \<longrightarrow>
      linear_x (compute_command s) = Fin 0 \<and>
      angular_z (compute_command s) = py_neg (angular_speed s))"
proof -
  have store: "left_dist (left_cb msg s) = NaN \<and> front_dist (front_cb msg s) = NaN \<and>
      right_dist (right_cb msg s) = NaN" if "range_m msg = NaN"
    using that by (simp add: left_cb_def front_cb_def right_cb_def)
  have one: "length (cmd_vel_pub (avoid_obstacle s)) = Suc (length (cmd_vel_pub s))"
    by (simp add: cmd_vel_pub_avoid_obstacle)
  have front: "compute_command s = compute_command (s\<lparr>front_dist := PInf\<rparr>)"
    if "front_dist s = NaN"
  proof -
    from that have "\<not> py_lt (front_dist s) (obstacle_threshold s)" by simp
    moreover have "\<not> py_lt (front_dist (s\<lparr>front_dist := PInf\<rparr>))
        (obstacle_threshold (s\<lparr>front_dist := PInf\<rparr>))"
      by (simp add: py_lt_PInf)
    ultimately show ?thesis by (simp add: compute_command_clear)
  qed
  have right: "compute_command s = compute_command (s\<lparr>right_dist := PInf\<rparr>)"
    if "right_dist s = NaN"
  proof (cases "py_lt (front_dist s) (obstacle_threshold s)")
    case True
    then have "py_lt (front_dist (s\<lparr>right_dist := PInf\<rparr>))
        (obstacle_threshold (s\<lparr>right_dist := PInf\<rparr>))"
      by simp
    with True that show ?thesis
      by (simp add: compute_command_blocked py_gt_def py_lt_PInf)
  next
    case False
    then have "\<not> py_lt (front_dist (s\<lparr>right_dist := PInf\<rparr>))
        (obstacle_threshold (s\<lparr>right_dist := PInf\<rparr>))"
      by simp
    with False that show ?thesis
      by (simp add: compute_command_clear py_lt_PInf)
  qed
  have left_clear: "compute_command s = compute_command (s\<lparr>left_dist := PInf\<rparr>)"
    if "left_dist s = NaN" and c: "\<not> py_lt (front_dist s) (obstacle_threshold s)"
  proof -
    from c have "\<not> py_lt (front_dist (s\<lparr>left_dist := PInf\<rparr>))
        (obstacle_threshold (s\<lparr>left_dist := PInf\<rparr>))"
      by simp
    with c that(1) show ?thesis
      by (simp add: compute_command_clear py_lt_PInf)
  qed
  have left_blocked: "linear_x (compute_command s) = Fin 0 \<and>
      angular_z (compute_command s) = py_neg (angular_speed s)"
    if "left_dist s = NaN" and "py_lt (front_dist s) (obstacle_threshold s)"
    using that by (simp add: compute_command_blocked py_gt_def py_lt_NaN_right)
  from store one front right left_clear left_blocked show ?thesis
    by blast
qed

theorem nan_readings_witness:
  "range_m (infrared NaN) = NaN \<and>
   left_dist (left_cb (infrared NaN) (scene (Fin 1) (Fin 1) (Fin 1))) = NaN \<and>
   front_dist (front_cb (infrared NaN) (scene (Fin 1) (Fin 1) (Fin 1))) = NaN \<and>
   right_dist (right_cb (infrared NaN) (scene (Fin 1) (Fin 1) (Fin 1))) = NaN \<and>
   front_dist (scene NaN NaN NaN) = NaN \<and>
   compute_command (scene NaN NaN NaN) =
     compute_command ((scene NaN NaN NaN)\<lparr>front_dist := PInf\<rparr>) \<and>
   right_dist (scene NaN NaN NaN) = NaN \<and>
   compute_command (scene NaN NaN NaN) =
     compute_command ((scene NaN NaN NaN)\<lparr>right_dist := PInf\<rparr>) \<and>
   left_dist (scene NaN NaN NaN) = NaN \<and>
   \<not> py_lt (front_dist (scene NaN NaN NaN)) (obstacle_threshold (scene NaN NaN NaN)) \<and>
   compute_command (scene NaN NaN NaN) =
     compute_command ((scene NaN NaN NaN)\<lparr>left_dist := PInf\<rparr>) \<and>
   left_dist (scene NaN (py_lit 0.2) (Fin 0.5)) = NaN \<and>
   py_lt (front_dist (scene NaN (py_lit 0.2) (Fin 0.5)))
     (obstacle_threshold (scene NaN (py_lit 0.2) (Fin 0.5))) \<and>
   linear_x (compute_command (scene NaN (py_lit 0.2) (Fin 0.5))) = Fin 0 \<and>
   angular_z (compute_command (scene NaN (py_lit 0.2) (Fin 0.5))) = Fin (- 0.5)"
proof -
  have m: "range_m (infrared NaN) = NaN"
    by (simp add: infrared_def)
  have a: "front_dist (scene NaN NaN NaN) = NaN" "right_dist (scene NaN NaN NaN) = NaN"
    "left_dist (scene NaN NaN NaN) = NaN"
    "\<not> py_lt (front_dist (scene NaN NaN NaN)) (obstacle_threshold (scene NaN NaN NaN))"
    by (simp_all add: scene_fields)
  have b: "left_dist (scene NaN (py_lit 0.2) (Fin 0.5)) = NaN"
    "py_lt (front_dist (scene NaN (py_lit 0.2) (Fin 0.5)))
       (obstacle_threshold (scene NaN (py_lit 0.2) (Fin 0.5)))"
    "py_neg (angular_speed (scene NaN (py_lit 0.2) (Fin 0.5))) = Fin (- 0.5)"
    by (simp_all add: scene_fields float_values)
  from nan_readings [of "infrared NaN" "scene (Fin 1) (Fin 1) (Fin 1)"] m
  have g1: "left_dist (left_cb (infrared NaN) (scene (Fin 1) (Fin 1) (Fin 1))) = NaN"
    "front_dist (front_cb (infrared NaN) (scene (Fin 1) (Fin 1) (Fin 1))) = NaN"
    "right_dist (right_cb (infrared NaN) (scene (Fin 1) (Fin 1) (Fin 1))) = NaN"
    by blast+
  from nan_readings [of "infrared NaN" "scene NaN NaN NaN"] a
  have g2: "compute_command (scene NaN NaN NaN) =
       compute_command ((scene NaN NaN NaN)\<lparr>front_dist := PInf\<rparr>)"
    "compute_command (scene NaN NaN NaN) =
       compute_command ((scene NaN NaN NaN)\<lparr>right_dist := PInf\<rparr>)"
    "compute_command (scene NaN NaN NaN) =
       compute_command ((scene NaN NaN NaN)\<lparr>left_dist := PInf\<rparr>)"
    by blast+
  from nan_readings [of "infrared NaN" "scene NaN (py_lit 0.2) (Fin 0.5)"] b
  have g3: "linear_x (compute_command (scene NaN (py_lit 0.2) (Fin 0.5))) = Fin 0"
    "angular_z (compute_command (scene NaN (py_lit 0.2) (Fin 0.5))) = Fin (- 0.5)"
    by metis+
  from m a b(1,2) g1 g2 g3 show ?thesis
    by (intro conjI)
qed

end
